theory Spec2Isabelle
  imports Complex_Main
begin

section \<open>Numbers, nulls and Python's operators\<close>

text \<open>
  The scoring code of \<^verbatim>\<open>scraper.py\<close> computes on Python numbers (ints and floats mixed)
  and on SQLite column values that may be NULL. The embedding takes every number as an
  exact rational: the decimal constants of the source (\<^verbatim>\<open>0.6\<close>, \<^verbatim>\<open>0.35\<close>, ...) are the
  fractions they denote and no binary rounding of floats is modelled. A value that may be
  \<^verbatim>\<open>None\<close> in Python (a missing dictionary key, a NULL column, an omitted argument) is a
  \<open>rat option\<close>.
\<close>

type_synonym num = rat

datatype py_error = ZeroDivisionError | TypeError | AttributeError | ValueError | IntegrityError

text \<open>Python's truth value of a number or \<^verbatim>\<open>None\<close>: \<^verbatim>\<open>None\<close> and zero are false.\<close>

fun truthy :: "'a::zero option \<Rightarrow> bool" where
  "truthy None = False"
| "truthy (Some v) = (v \<noteq> 0)"

text \<open>\<^verbatim>\<open>x or d\<close> for a number \<open>d\<close>: the value of \<open>x\<close> when it is true, else \<open>d\<close>.\<close>

fun py_or :: "'a::zero option \<Rightarrow> 'a \<Rightarrow> 'a" where
  "py_or None d = d"
| "py_or (Some v) d = (if v = 0 then d else v)"

text \<open>
  \<^verbatim>\<open>a / b\<close>: true division raises ZeroDivisionError on a zero divisor and TypeError on
  \<^verbatim>\<open>None\<close>. HOL's own \<open>a / 0\<close> is \<open>0\<close>, so the check is written out.
\<close>

fun py_truediv :: "num \<Rightarrow> num option \<Rightarrow> py_error + num" where
  "py_truediv a None = Inl TypeError"
| "py_truediv a (Some b) = (if b = 0 then Inl ZeroDivisionError else Inr (a / b))"

text \<open>\<^verbatim>\<open>a > b\<close> where \<open>a\<close> may be \<^verbatim>\<open>None\<close>: comparing \<^verbatim>\<open>None\<close> with a number raises TypeError.\<close>

fun py_gt :: "num option \<Rightarrow> num \<Rightarrow> py_error + bool" where
  "py_gt None b = Inl TypeError"
| "py_gt (Some a) b = Inr (b < a)"

text \<open>\<^verbatim>\<open>a - b\<close> where \<open>b\<close> may be \<^verbatim>\<open>None\<close>.\<close>

fun py_sub :: "num \<Rightarrow> num option \<Rightarrow> py_error + num" where
  "py_sub a None = Inl TypeError"
| "py_sub a (Some b) = Inr (a - b)"

text \<open>
  \<^verbatim>\<open>round(x, n)\<close>: Python rounds to the nearest multiple of \<open>10 ^ -n\<close>, a tie going to
  the even neighbour.
\<close>

definition round_half_even :: "num \<Rightarrow> int" where
  "round_half_even y =
     (let f = \<lfloor>y\<rfloor>; d = y - of_int f
      in if d < 1 / 2 then f
         else if 1 / 2 < d then f + 1
         else if even f then f else f + 1)"

definition py_round :: "num \<Rightarrow> nat \<Rightarrow> num" where
  "py_round x n = of_int (round_half_even (x * 10 ^ n)) / 10 ^ n"

section \<open>The leverage score\<close>

text \<open>
  \<^verbatim>\<open>StrategicPoliticalScraper.calculate_leverage_score\<close>. The funding component is the
  source's \<^verbatim>\<open>if/elif\<close> chain over the funding ratio, kept in its order.
\<close>

definition funding_component :: "num \<Rightarrow> num" where
  "funding_component funding_ratio =
     (if funding_ratio < 1 / 2 then 90
      else if funding_ratio < 3 / 4 then 75
      else if funding_ratio < 1 then 60
      else if funding_ratio < 3 / 2 then 40
      else 20)"

definition calculate_leverage_score :: "num \<Rightarrow> num \<Rightarrow> num \<Rightarrow> py_error + num" where
  "calculate_leverage_score candidate_receipts opponent_receipts competitiveness =
     (if candidate_receipts \<le> 0 \<or> opponent_receipts \<le> 0 then Inr 50
      else case py_truediv candidate_receipts (Some opponent_receipts) of
             Inl e \<Rightarrow> Inl e
           | Inr funding_ratio \<Rightarrow>
               (let competitiveness_component = 100 - \<bar>competitiveness - 50\<bar> * 2;
                    leverage_score = funding_component funding_ratio * (6 / 10)
                                     + competitiveness_component * (4 / 10)
                in Inr (py_round (min 100 (max 0 leverage_score)) 2)))"



section \<open>The store\<close>

text \<open>
  A value read from a JSON dictionary with \<^verbatim>\<open>d.get(key, default)\<close>: the key may be
  missing (the default is returned), present with \<^verbatim>\<open>null\<close> (\<^verbatim>\<open>None\<close> is returned) or
  present with a value.
\<close>

datatype 'a json = Missing | Null | Val 'a

fun dict_get :: "'a json \<Rightarrow> 'a option \<Rightarrow> 'a option" where
  "dict_get Missing dflt = dflt"
| "dict_get Null dflt = None"
| "dict_get (Val v) dflt = Some v"

text \<open>The totals dictionary the FEC returns for one candidate, with the keys the code reads.\<close>

record financial_data =
  fd_receipts :: "num json"
  fd_disbursements :: "num json"
  fd_cash_on_hand_end_period :: "num json"
  fd_individual_contributions :: "num json"
  fd_contributions :: "num json"
  fd_other_political_committee_contributions :: "num json"
  fd_political_party_committee_contributions :: "num json"
  fd_candidate_contribution :: "num json"
  fd_coverage_end_date :: "string json"

text \<open>The candidate dictionary of the FEC, with the keys the code reads.\<close>

record candidate_data =
  cd_candidate_id :: "string json"
  cd_name :: "string json"
  cd_party_full :: "string json"
  cd_party :: "string json"
  cd_office_full :: "string json"
  cd_state :: "string json"
  cd_district :: "string json"
  cd_incumbent_challenge_full :: "string json"
  cd_candidate_status :: "string json"
  cd_election_years :: "int list json"

text \<open>
  Rows of the tables of \<^verbatim>\<open>database_schema.py\<close>, with the columns the scraper writes or
  reads. A nullable column is an option. The timestamp columns filled by
  \<^verbatim>\<open>CURRENT_TIMESTAMP\<close> depend on the wall clock and are left out. For the two tables
  the scoring writes, the columns of the INSERT statement form a record of their own and
  the stored row adds the id.
\<close>

record finance_columns =
  cf_candidate_id :: int
  cf_total_receipts :: "num option"
  cf_total_disbursements :: "num option"
  cf_cash_on_hand :: "num option"
  cf_total_contributions :: "num option"
  cf_individual_contributions :: "num option"
  cf_pac_contributions :: "num option"
  cf_party_contributions :: "num option"
  cf_candidate_contributions :: "num option"
  cf_opponent_total_receipts :: "num option"
  cf_funding_gap :: "num option"
  cf_funding_ratio :: "num option"
  cf_donation_leverage_score :: "num option"
  cf_small_dollar_percentage :: "num option"
  cf_reporting_period_end :: "string option"

record campaign_finance_row =
  cf_id :: int
  cf_columns :: finance_columns

record candidate_row =
  c_id :: int
  c_fec_candidate_id :: "string option"
  c_name :: string
  c_party :: "string option"
  c_office :: "string option"
  c_state :: "string option"
  c_district :: "string option"
  c_incumbent :: "int option"
  c_candidate_status :: "string option"
  c_election_year :: "int option"

record election_row =
  e_id :: int
  e_election_date :: string
  e_election_type :: "string option"
  e_description :: "string option"

record race_row =
  r_id :: int
  r_election_id :: "int option"
  r_office :: string
  r_race_type :: "string option"
  r_state :: "string option"
  r_district :: "string option"
  r_general_date :: "string option"
  r_competitiveness_score :: "num option"
  r_cook_rating :: "string option"

record race_candidate_row =
  rc_id :: int
  rc_race_id :: int
  rc_candidate_id :: int

record issue_row =
  i_id :: int
  i_name :: string

record issue_columns =
  ci_candidate_id :: int
  ci_issue_id :: int
  ci_position :: "string option"
  ci_strength :: "string option"
  ci_priority :: "int option"

record candidate_issue_row =
  ci_id :: int
  ci_columns :: issue_columns

record impact_columns =
  is_candidate_id :: int
  is_race_id :: int
  is_competitiveness_score :: num
  is_funding_leverage_score :: num
  is_control_impact_score :: num
  is_grassroots_potential_score :: num
  is_overall_impact_score :: num
  is_recommendation_tier :: string

record impact_score_row =
  is_id :: int
  is_columns :: impact_columns

text \<open>
  The scraper's state: the tables, each a list of rows in rowid order, and for every
  table the code inserts into its \<^verbatim>\<open>AUTOINCREMENT\<close> counter (the largest id the table
  ever gave out). The tables \<^verbatim>\<open>data_sources\<close>, \<^verbatim>\<open>district_demographics\<close> and
  \<^verbatim>\<open>polling_data\<close> are written by logging and demographic code only and read by nothing
  modelled here; they are not part of the state. The last field is not in the source: it
  counts the calls of \<^verbatim>\<open>calculate_leverage_score\<close>, so that a statement about which
  code runs can be made.
\<close>

record db =
  elections :: "election_row list"
  elections_seq :: int
  races :: "race_row list"
  races_seq :: int
  candidates :: "candidate_row list"
  candidates_seq :: int
  issues :: "issue_row list"
  candidate_issues :: "candidate_issue_row list"
  candidate_issues_seq :: int
  race_candidates :: "race_candidate_row list"
  race_candidates_seq :: int
  campaign_finance :: "campaign_finance_row list"
  campaign_finance_seq :: int
  impact_scores :: "impact_score_row list"
  impact_scores_seq :: int
  leverage_calls :: nat

text \<open>
  The id SQLite gives a new row of an \<^verbatim>\<open>AUTOINCREMENT\<close> table: one more than the
  largest id the table holds or ever gave out.
\<close>

definition next_id :: "int \<Rightarrow> int list \<Rightarrow> int" where
  "next_id seq ids = fold max ids seq + 1"

text \<open>SQL's \<open>=\<close> on nullable values: a comparison with NULL is never true.\<close>

fun sql_eq :: "'a option \<Rightarrow> 'a option \<Rightarrow> bool" where
  "sql_eq (Some a) (Some b) = (a = b)"
| "sql_eq _ _ = False"

section \<open>Campaign finance\<close>

text \<open>
  The derived figures of \<^verbatim>\<open>insert_campaign_finance\<close> (funding gap, funding ratio,
  leverage score), computed under the guard
  \<^verbatim>\<open>if opponent_receipts and opponent_receipts > 0\<close>, whose \<^verbatim>\<open>and\<close> does not
  evaluate the comparison when \<^verbatim>\<open>opponent_receipts\<close> is \<^verbatim>\<open>None\<close> or zero. The last
  component says whether \<^verbatim>\<open>calculate_leverage_score\<close> was called.
\<close>

definition leverage_figures ::
  "num \<Rightarrow> num option \<Rightarrow> py_error + (num option \<times> num option \<times> num option \<times> bool)" where
  "leverage_figures receipts opponent_receipts =
     (case (if truthy opponent_receipts then py_gt opponent_receipts 0 else Inr False) of
        Inl e \<Rightarrow> Inl e
      | Inr False \<Rightarrow> Inr (None, None, None, False)
      | Inr True \<Rightarrow>
         (case py_sub receipts opponent_receipts of
            Inl e \<Rightarrow> Inl e
          | Inr funding_gap \<Rightarrow>
             (case py_gt opponent_receipts 0 of
                Inl e \<Rightarrow> Inl e
              | Inr positive \<Rightarrow>
                 (case (if positive then py_truediv receipts opponent_receipts else Inr 0) of
                    Inl e \<Rightarrow> Inl e
                  | Inr funding_ratio \<Rightarrow>
                     (case opponent_receipts of
                        None \<Rightarrow> Inl TypeError
                      | Some opponent \<Rightarrow>
                         (case calculate_leverage_score receipts opponent 50 of
                            Inl e \<Rightarrow> Inl e
                          | Inr leverage_score \<Rightarrow>
                              Inr (Some funding_gap, Some funding_ratio,
                                   Some leverage_score, True)))))))"

text \<open>
  The body of the \<^verbatim>\<open>try\<close> block of \<^verbatim>\<open>insert_campaign_finance\<close> up to the INSERT: the
  values of the new row, or the exception raised on the way.
\<close>

definition finance_values ::
  "int \<Rightarrow> financial_data \<Rightarrow> num option \<Rightarrow> py_error + (finance_columns \<times> bool)" where
  "finance_values candidate_id financial_data opponent_receipts =
     (let receipts = py_or (dict_get (fd_receipts financial_data) (Some 0)) 0;
          disbursements = py_or (dict_get (fd_disbursements financial_data) (Some 0)) 0;
          cash_on_hand = py_or (dict_get (fd_cash_on_hand_end_period financial_data) (Some 0)) 0;
          individual_contribs =
            py_or (dict_get (fd_individual_contributions financial_data) (Some 0)) 0
      in case (if receipts > 0 \<and> individual_contribs > 0
               then (case py_truediv individual_contribs (Some receipts) of
                       Inl e \<Rightarrow> Inl e | Inr q \<Rightarrow> Inr (q * 100))
               else Inr 0) of
           Inl e \<Rightarrow> Inl e
         | Inr small_dollar_pct \<Rightarrow>
            (case leverage_figures receipts opponent_receipts of
               Inl e \<Rightarrow> Inl e
             | Inr (funding_gap, funding_ratio, leverage_score, called) \<Rightarrow>
                 Inr (\<lparr> cf_candidate_id = candidate_id,
                        cf_total_receipts = Some receipts,
                        cf_total_disbursements = Some disbursements,
                        cf_cash_on_hand = Some cash_on_hand,
                        cf_total_contributions =
                          dict_get (fd_contributions financial_data) (Some 0),
                        cf_individual_contributions = Some individual_contribs,
                        cf_pac_contributions =
                          dict_get (fd_other_political_committee_contributions financial_data)
                            (Some 0),
                        cf_party_contributions =
                          dict_get (fd_political_party_committee_contributions financial_data)
                            (Some 0),
                        cf_candidate_contributions =
                          dict_get (fd_candidate_contribution financial_data) (Some 0),
                        cf_opponent_total_receipts = opponent_receipts,
                        cf_funding_gap = funding_gap,
                        cf_funding_ratio = funding_ratio,
                        cf_donation_leverage_score = leverage_score,
                        cf_small_dollar_percentage = Some small_dollar_pct,
                        cf_reporting_period_end =
                          dict_get (fd_coverage_end_date financial_data) None \<rparr>,
                      called)))"

text \<open>
  \<^verbatim>\<open>insert_campaign_finance\<close>: a plain INSERT of the values under a fresh id; an
  exception is caught (and printed) and leaves the table as it was.
\<close>

definition insert_campaign_finance :: "db \<Rightarrow> int \<Rightarrow> financial_data \<Rightarrow> num option \<Rightarrow> db" where
  "insert_campaign_finance d candidate_id financial_data opponent_receipts =
     (case finance_values candidate_id financial_data opponent_receipts of
        Inl e \<Rightarrow> d
      | Inr (cols, called) \<Rightarrow>
          (let new = next_id (campaign_finance_seq d) (map cf_id (campaign_finance d))
           in d\<lparr> campaign_finance := campaign_finance d @ [\<lparr>cf_id = new, cf_columns = cols\<rparr>],
                 campaign_finance_seq := new,
                 leverage_calls := leverage_calls d + (if called then 1 else 0) \<rparr>))"

section \<open>Impact scores\<close>

text \<open>One row of the SELECT of \<^verbatim>\<open>calculate_impact_scores\<close>.\<close>

record pair_row =
  p_race_id :: int
  p_candidate_id :: int
  p_donation_leverage_score :: "num option"
  p_small_dollar_percentage :: "num option"
  p_incumbent :: "int option"

text \<open>
  The query: every link of \<^verbatim>\<open>race_candidates\<close> joined with its candidate, and left-joined
  with the candidate's finance records: one row per finance record, and one row with
  NULL finance columns for a candidate that has none. The query has no ORDER BY; the rows
  are taken in the order of the nested scan.
\<close>

definition select_pairs :: "db \<Rightarrow> pair_row list" where
  "select_pairs d =
     concat (map (\<lambda>rc.
       concat (map (\<lambda>c.
         (let cfs = filter (\<lambda>cf. cf_candidate_id (cf_columns cf) = c_id c) (campaign_finance d)
          in if cfs = []
             then [\<lparr> p_race_id = rc_race_id rc, p_candidate_id = rc_candidate_id rc,
                      p_donation_leverage_score = None, p_small_dollar_percentage = None,
                      p_incumbent = c_incumbent c \<rparr>]
             else map (\<lambda>cf.
                    \<lparr> p_race_id = rc_race_id rc, p_candidate_id = rc_candidate_id rc,
                      p_donation_leverage_score = cf_donation_leverage_score (cf_columns cf),
                      p_small_dollar_percentage = cf_small_dollar_percentage (cf_columns cf),
                      p_incumbent = c_incumbent c \<rparr>) cfs))
         (filter (\<lambda>c. rc_candidate_id rc = c_id c) (candidates d))))
       (race_candidates d))"

text \<open>The body of the loop up to the INSERT: the eight values written for one pair.\<close>

definition impact_values :: "pair_row \<Rightarrow> impact_columns" where
  "impact_values pair =
     (let race_id = p_race_id pair;
          candidate_id = p_candidate_id pair;
          leverage = py_or (p_donation_leverage_score pair) 50;
          small_dollar_pct = py_or (p_small_dollar_percentage pair) 30;
          is_incumbent = p_incumbent pair;
          competitiveness_score = 50;
          funding_leverage_score = leverage;
          control_impact_score0 = 60;
          grassroots_potential = min 100 (small_dollar_pct * 2);
          control_impact_score =
            (if \<not> truthy is_incumbent then control_impact_score0 + 10 else control_impact_score0);
          overall_score = competitiveness_score * (3 / 10)
                          + funding_leverage_score * (35 / 100)
                          + control_impact_score * (20 / 100)
                          + grassroots_potential * (15 / 100);
          tier = (if overall_score \<ge> 75 then ''High Impact''
                  else if overall_score \<ge> 60 then ''Medium-High Impact''
                  else if overall_score \<ge> 45 then ''Medium Impact''
                  else ''Lower Priority'')
      in \<lparr> is_candidate_id = candidate_id, is_race_id = race_id,
           is_competitiveness_score = competitiveness_score,
           is_funding_leverage_score = funding_leverage_score,
           is_control_impact_score = control_impact_score,
           is_grassroots_potential_score = grassroots_potential,
           is_overall_impact_score = overall_score,
           is_recommendation_tier = tier \<rparr>)"

text \<open>
  \<^verbatim>\<open>INSERT OR REPLACE INTO impact_scores\<close> under \<^verbatim>\<open>UNIQUE(candidate_id, race_id)\<close>: the
  rows in conflict are deleted and the new row is inserted under a fresh id.
\<close>

definition same_pair :: "impact_columns \<Rightarrow> impact_score_row \<Rightarrow> bool" where
  "same_pair v r \<longleftrightarrow>
     is_candidate_id (is_columns r) = is_candidate_id v \<and> is_race_id (is_columns r) = is_race_id v"

definition insert_or_replace_impact_score :: "impact_columns \<Rightarrow> db \<Rightarrow> db" where
  "insert_or_replace_impact_score v d =
     (let new = next_id (impact_scores_seq d) (map is_id (impact_scores d))
      in d\<lparr> impact_scores :=
               filter (\<lambda>r. \<not> same_pair v r) (impact_scores d) @ [\<lparr>is_id = new, is_columns = v\<rparr>],
             impact_scores_seq := new \<rparr>)"

definition calculate_impact_scores :: "db \<Rightarrow> db" where
  "calculate_impact_scores d =
     fold (\<lambda>pair. insert_or_replace_impact_score (impact_values pair)) (select_pairs d) d"

text \<open>
  The tiers as the specification words them: thresholds read from the highest down, the
  first one the score reaches giving the label.
\<close>

fun first_reached :: "(num \<times> string) list \<Rightarrow> string \<Rightarrow> num \<Rightarrow> string" where
  "first_reached [] other x = other"
| "first_reached ((bound, label) # rest) other x =
     (if bound \<le> x then label else first_reached rest other x)"

definition spec_recommendation_tier :: "num \<Rightarrow> string" where
  "spec_recommendation_tier x =
     first_reached [(75, ''High Impact''), (60, ''Medium-High Impact''), (45, ''Medium Impact'')]
       ''Lower Priority'' x"

section \<open>Issue positions\<close>

text \<open>
  \<^verbatim>\<open>str.upper\<close> on the ASCII letters (a \<open>char\<close> is a byte here, and other bytes are
  left as they are), and \<^verbatim>\<open>needle in haystack\<close> on strings: the needle occurs as a
  contiguous block.
\<close>

definition upper_char :: "char \<Rightarrow> char" where
  "upper_char c =
     (let n = of_char c :: nat in if 97 \<le> n \<and> n \<le> 122 then char_of (n - 32) else c)"

definition py_upper :: "string \<Rightarrow> string" where
  "py_upper s = map upper_char s"

fun starts_with :: "'a list \<Rightarrow> 'a list \<Rightarrow> bool" where
  "starts_with s [] = True"
| "starts_with [] (p # ps) = False"
| "starts_with (c # cs) (p # ps) = (c = p \<and> starts_with cs ps)"

fun py_in :: "'a list \<Rightarrow> 'a list \<Rightarrow> bool" where
  "py_in needle [] = (needle = [])"
| "py_in needle (c # cs) = (starts_with (c # cs) needle \<or> py_in needle cs)"

text \<open>
  \<^verbatim>\<open>xs.index(x)\<close>, the position of the first occurrence, counted from 0; \<open>None\<close> where
  Python raises ValueError because \<open>x\<close> does not occur.
\<close>

fun list_index :: "'a list \<Rightarrow> 'a \<Rightarrow> nat option" where
  "list_index [] x = None"
| "list_index (y # ys) x =
     (if y = x then Some 0 else map_option Suc (list_index ys x))"

definition democratic_priorities :: "string list" where
  "democratic_priorities =
     [''Climate Change'', ''Healthcare Access'', ''Economic Justice'',
      ''Reproductive Rights'', ''LGBTQ+ Rights'', ''Voting Rights'']"

definition republican_priorities :: "string list" where
  "republican_priorities =
     [''Crime & Safety'', ''Immigration Reform'', ''Economic Justice'',
      ''Gun Control'', ''Foreign Policy'']"

text \<open>
  \<^verbatim>\<open>INSERT OR IGNORE INTO candidate_issues\<close> under \<^verbatim>\<open>UNIQUE(candidate_id, issue_id)\<close>:
  nothing is written when the candidate already has a row for the issue.
\<close>

definition has_position :: "candidate_issue_row list \<Rightarrow> int \<Rightarrow> int \<Rightarrow> bool" where
  "has_position rows candidate_id issue_id \<longleftrightarrow>
     list_ex (\<lambda>r. ci_candidate_id (ci_columns r) = candidate_id
                   \<and> ci_issue_id (ci_columns r) = issue_id) rows"

definition insert_or_ignore_candidate_issue :: "issue_columns \<Rightarrow> db \<Rightarrow> db" where
  "insert_or_ignore_candidate_issue v d =
     (if has_position (candidate_issues d) (ci_candidate_id v) (ci_issue_id v) then d
      else (let new = next_id (candidate_issues_seq d) (map ci_id (candidate_issues d))
            in d\<lparr> candidate_issues := candidate_issues d @ [\<lparr>ci_id = new, ci_columns = v\<rparr>],
                  candidate_issues_seq := new \<rparr>))"

text \<open>
  The position the loop of \<^verbatim>\<open>assign_candidate_issues\<close> decides for one issue of the
  catalog, \<open>None\<close> where it runs \<^verbatim>\<open>continue\<close>. The membership test
  \<^verbatim>\<open>issue_name in priorities\<close> and the call \<^verbatim>\<open>priorities.index(issue_name)\<close> that follows
  it are one lookup here.
\<close>

definition likely_position :: "int \<Rightarrow> string \<Rightarrow> issue_row \<Rightarrow> issue_columns option" where
  "likely_position candidate_id party issue =
     (let issue_id = i_id issue; issue_name = i_name issue
      in if py_in ''DEMOCRATIC'' (py_upper party)
         then (case list_index democratic_priorities issue_name of
                 Some k \<Rightarrow> Some \<lparr> ci_candidate_id = candidate_id, ci_issue_id = issue_id,
                                   ci_position = Some ''Support'', ci_strength = Some ''Strong'',
                                   ci_priority = Some (int k + 1) \<rparr>
               | None \<Rightarrow> None)
         else if py_in ''REPUBLICAN'' (py_upper party)
         then (case list_index republican_priorities issue_name of
                 Some k \<Rightarrow> Some \<lparr> ci_candidate_id = candidate_id, ci_issue_id = issue_id,
                                   ci_position = Some ''Support'', ci_strength = Some ''Strong'',
                                   ci_priority = Some (int k + 1) \<rparr>
               | None \<Rightarrow> None)
         else None)"

text \<open>
  \<^verbatim>\<open>assign_candidate_issues\<close>. The party label is a string; when it is \<^verbatim>\<open>None\<close> the
  call \<^verbatim>\<open>party.upper()\<close> of the first iteration raises AttributeError, before anything is
  written, and with an empty catalog the loop body never runs.
\<close>

definition assign_candidate_issues :: "db \<Rightarrow> int \<Rightarrow> string option \<Rightarrow> py_error + db" where
  "assign_candidate_issues d candidate_id party =
     (case party of
        None \<Rightarrow> (if issues d = [] then Inr d else Inl AttributeError)
      | Some label \<Rightarrow>
          Inr (fold (\<lambda>issue d'.
                 case likely_position candidate_id label issue of
                   None \<Rightarrow> d'
                 | Some v \<Rightarrow> insert_or_ignore_candidate_issue v d')
               (issues d) d))"

section \<open>The ingestion run\<close>

text \<open>
  The functions \<^verbatim>\<open>scrape_all_data\<close> calls on the store. What the network returns (the
  candidate lists, and for every candidate the totals dictionary or nothing) is an
  argument. A function whose SQL statement or string method can raise returns the
  exception; inside the run, an exception comes with the store as committed so far, since
  nothing catches it before \<^verbatim>\<open>__main__\<close>.
\<close>

definition create_default_election :: "db \<Rightarrow> string \<Rightarrow> db \<times> int" where
  "create_default_election d year =
     (let election_date = year @ ''-11-03''
      in case filter (\<lambda>e. e_election_date e = election_date
                           \<and> sql_eq (e_election_type e) (Some ''General Election''))
                (elections d) of
           existing # _ \<Rightarrow> (d, e_id existing)
         | [] \<Rightarrow>
            (let new = next_id (elections_seq d) (map e_id (elections d))
             in (d\<lparr> elections := elections d @
                        [\<lparr> e_id = new, e_election_date = election_date,
                           e_election_type = Some ''General Election'',
                           e_description = Some (year @ '' U.S. General Election'') \<rparr>],
                      elections_seq := new \<rparr>, new)))"

text \<open>
  \<^verbatim>\<open>insert_candidate\<close>: an update of the row with the same FEC id, or an insert. The
  column \<^verbatim>\<open>name\<close> is NOT NULL, so a \<^verbatim>\<open>null\<close> name raises IntegrityError.
\<close>

definition insert_candidate :: "db \<Rightarrow> candidate_data \<Rightarrow> py_error + (db \<times> int)" where
  "insert_candidate d candidate_data =
     (let fec_id = dict_get (cd_candidate_id candidate_data) None;
          name = dict_get (cd_name candidate_data) (Some []);
          party = dict_get (cd_party_full candidate_data)
                    (dict_get (cd_party candidate_data) (Some []));
          office = dict_get (cd_office_full candidate_data) (Some []);
          state = dict_get (cd_state candidate_data) None;
          district = dict_get (cd_district candidate_data) (Some []);
          incumbent =
            (dict_get (cd_incumbent_challenge_full candidate_data) (Some []) = Some ''Incumbent'');
          status = dict_get (cd_candidate_status candidate_data) (Some []);
          election_year = (case dict_get (cd_election_years candidate_data) None of
                             Some (y # ys) \<Rightarrow> Some y
                           | _ \<Rightarrow> None)
      in case name of
           None \<Rightarrow> Inl IntegrityError
         | Some nm \<Rightarrow>
            (case filter (\<lambda>c. sql_eq (c_fec_candidate_id c) fec_id) (candidates d) of
               existing # _ \<Rightarrow>
                 Inr (d\<lparr> candidates :=
                          map (\<lambda>c. if sql_eq (c_fec_candidate_id c) fec_id
                                    then c\<lparr> c_name := nm, c_party := party, c_office := office,
                                           c_state := state, c_district := district,
                                           c_incumbent := Some (if incumbent then 1 else 0),
                                           c_candidate_status := status,
                                           c_election_year := election_year \<rparr>
                                    else c)
                            (candidates d) \<rparr>,
                      c_id existing)
             | [] \<Rightarrow>
                 (let new = next_id (candidates_seq d) (map c_id (candidates d))
                  in Inr (d\<lparr> candidates := candidates d @
                               [\<lparr> c_id = new, c_fec_candidate_id = fec_id, c_name = nm,
                                  c_party = party, c_office = office, c_state = state,
                                  c_district = district,
                                  c_incumbent = Some (if incumbent then 1 else 0),
                                  c_candidate_status = status,
                                  c_election_year = election_year \<rparr>],
                             candidates_seq := new \<rparr>, new))))"

text \<open>The dictionary \<^verbatim>\<open>race_data\<close> that \<^verbatim>\<open>scrape_all_data\<close> builds, all keys present.\<close>

record race_data =
  rd_office :: string
  rd_state :: "string option"
  rd_district :: "string option"
  rd_race_type :: string
  rd_general_date :: string

definition insert_race :: "db \<Rightarrow> race_data \<Rightarrow> int \<Rightarrow> db \<times> int" where
  "insert_race d race_data election_id =
     (let office = rd_office race_data;
          race_type = rd_race_type race_data;
          state = rd_state race_data;
          district = rd_district race_data;
          general_date = rd_general_date race_data
      in case filter (\<lambda>r. r_office r = office \<and> sql_eq (r_state r) state
                           \<and> sql_eq (r_district r) district
                           \<and> sql_eq (r_general_date r) (Some general_date))
                (races d) of
           existing # _ \<Rightarrow> (d, r_id existing)
         | [] \<Rightarrow>
            (let new = next_id (races_seq d) (map r_id (races d))
             in (d\<lparr> races := races d @
                        [\<lparr> r_id = new, r_election_id = Some election_id, r_office = office,
                           r_race_type = Some race_type, r_state = state, r_district = district,
                           r_general_date = Some general_date,
                           r_competitiveness_score = None, r_cook_rating = None \<rparr>],
                      races_seq := new \<rparr>, new)))"

text \<open>\<^verbatim>\<open>link_candidate_to_race\<close>: INSERT OR IGNORE under \<^verbatim>\<open>UNIQUE(race_id, candidate_id)\<close>.\<close>

definition link_candidate_to_race :: "db \<Rightarrow> int \<Rightarrow> int \<Rightarrow> db" where
  "link_candidate_to_race d candidate_id race_id =
     (if list_ex (\<lambda>rc. rc_race_id rc = race_id \<and> rc_candidate_id rc = candidate_id)
           (race_candidates d)
      then d
      else (let new = next_id (race_candidates_seq d) (map rc_id (race_candidates d))
            in d\<lparr> race_candidates := race_candidates d @
                     [\<lparr> rc_id = new, rc_race_id = race_id, rc_candidate_id = candidate_id \<rparr>],
                  race_candidates_seq := new \<rparr>))"

definition update_race_competitiveness :: "db \<Rightarrow> int \<Rightarrow> num \<Rightarrow> string \<Rightarrow> db" where
  "update_race_competitiveness d race_id competitiveness_score rating =
     d\<lparr> races := map (\<lambda>r. if r_id r = race_id
                           then r\<lparr> r_competitiveness_score := Some competitiveness_score,
                                  r_cook_rating := Some rating \<rparr>
                           else r)
                    (races d) \<rparr>"

text \<open>The simulated ratings of \<^verbatim>\<open>fetch_ballotpedia_race_ratings\<close>: state, district, rating, competitiveness.\<close>

definition competitive_races :: "(string \<times> string \<times> string \<times> num) list" where
  "competitive_races =
     [(''AZ'', ''01'', ''Toss-up'', 50), (''CA'', ''13'', ''Lean D'', 45),
      (''PA'', ''07'', ''Toss-up'', 50), (''MI'', ''03'', ''Lean R'', 55),
      (''NC'', ''01'', ''Toss-up'', 50), (''TX'', ''23'', ''Lean R'', 55),
      (''NV'', ''03'', ''Toss-up'', 50), (''GA'', ''06'', ''Lean D'', 45)]"

text \<open>
  A Python dictionary from race keys to race ids, in insertion order: a list of pairs
  with distinct keys, a new key going to the end.
\<close>

type_synonym race_dict = "(string \<times> int) list"

text \<open>A string is true when it is not empty; \<^verbatim>\<open>None\<close> is false.\<close>

fun truthy_str :: "string option \<Rightarrow> bool" where
  "truthy_str None = False"
| "truthy_str (Some s) = (s \<noteq> [])"

text \<open>How an f-string prints a string or \<^verbatim>\<open>None\<close>.\<close>

fun fmt :: "string option \<Rightarrow> string" where
  "fmt None = ''None''"
| "fmt (Some s) = s"

text \<open>What the network gave for one candidate: the candidate and, when the totals request returned a non-empty dictionary, the totals.\<close>

type_synonym fetched = "candidate_data \<times> financial_data option"

text \<open>
  The part of a loop body after the race is known: link, issue positions, finance. The
  call of \<^verbatim>\<open>insert_campaign_finance\<close> passes two arguments, so \<^verbatim>\<open>opponent_receipts\<close>
  has its default \<^verbatim>\<open>None\<close>.
\<close>

definition store_finance :: "db \<Rightarrow> int \<Rightarrow> financial_data option \<Rightarrow> db" where
  "store_finance d candidate_id financials =
     (case financials of
        None \<Rightarrow> d
      | Some financial_data \<Rightarrow> insert_campaign_finance d candidate_id financial_data None)"

definition house_candidate ::
  "int \<Rightarrow> fetched \<Rightarrow> db \<times> race_dict \<Rightarrow> (py_error \<times> db) + (db \<times> race_dict)" where
  "house_candidate election_id item s =
     (let candidate = fst item; financials = snd item; d = fst s; races_by_district = snd s
      in case insert_candidate d candidate of
           Inl e \<Rightarrow> Inl (e, d)
         | Inr (d1, candidate_id) \<Rightarrow>
            (let state = dict_get (cd_state candidate) None;
                 district = dict_get (cd_district candidate) None
             in if truthy_str state \<and> truthy_str district
                then (let race_key = fmt state @ ''-'' @ fmt district;
                          (d2, races_by_district2, race_id) =
                            (case map_of races_by_district race_key of
                               None \<Rightarrow>
                                 (let (d', new_race) =
                                        insert_race d1
                                          \<lparr> rd_office = ''U.S. House'', rd_state = state,
                                            rd_district = district, rd_race_type = ''House'',
                                            rd_general_date = ''2026-11-03'' \<rparr> election_id
                                  in (d', races_by_district @ [(race_key, new_race)], new_race))
                             | Some known \<Rightarrow> (d1, races_by_district, known));
                          d3 = link_candidate_to_race d2 candidate_id race_id
                      in case assign_candidate_issues d3 candidate_id
                                (dict_get (cd_party_full candidate) (Some [])) of
                           Inl e \<Rightarrow> Inl (e, d3)
                         | Inr d4 \<Rightarrow> Inr (store_finance d4 candidate_id financials,
                                          races_by_district2))
                else Inr (store_finance d1 candidate_id financials, races_by_district)))"

definition senate_candidate ::
  "int \<Rightarrow> fetched \<Rightarrow> db \<times> race_dict \<Rightarrow> (py_error \<times> db) + (db \<times> race_dict)" where
  "senate_candidate election_id item s =
     (let candidate = fst item; financials = snd item; d = fst s; senate_races = snd s
      in case insert_candidate d candidate of
           Inl e \<Rightarrow> Inl (e, d)
         | Inr (d1, candidate_id) \<Rightarrow>
            (let state = dict_get (cd_state candidate) None
             in if truthy_str state
                then (let race_key = fmt state;
                          (d2, senate_races2, race_id) =
                            (case map_of senate_races race_key of
                               None \<Rightarrow>
                                 (let (d', new_race) =
                                        insert_race d1
                                          \<lparr> rd_office = ''U.S. Senate'', rd_state = state,
                                            rd_district = None, rd_race_type = ''Senate'',
                                            rd_general_date = ''2026-11-03'' \<rparr> election_id
                                  in (d', senate_races @ [(race_key, new_race)], new_race))
                             | Some known \<Rightarrow> (d1, senate_races, known));
                          d3 = link_candidate_to_race d2 candidate_id race_id
                      in case assign_candidate_issues d3 candidate_id
                                (dict_get (cd_party_full candidate) (Some [])) of
                           Inl e \<Rightarrow> Inl (e, d3)
                         | Inr d4 \<Rightarrow> Inr (store_finance d4 candidate_id financials, senate_races2))
                else Inr (store_finance d1 candidate_id financials, senate_races)))"

text \<open>A \<^verbatim>\<open>for\<close> loop over the candidates that an exception of its body leaves.\<close>

fun for_each ::
  "('x \<Rightarrow> 's \<Rightarrow> (py_error \<times> db) + 's) \<Rightarrow> 'x list \<Rightarrow> 's \<Rightarrow> (py_error \<times> db) + 's" where
  "for_each body [] s = Inr s"
| "for_each body (x # xs) s =
     (case body x s of Inl e \<Rightarrow> Inl e | Inr s' \<Rightarrow> for_each body xs s')"

text \<open>The loop over the ratings: a race of the House dictionary gets its competitiveness.\<close>

definition update_ratings :: "race_dict \<Rightarrow> db \<Rightarrow> db" where
  "update_ratings races_by_district d =
     fold (\<lambda>rating d'.
             case rating of (state, district, label, competitiveness) \<Rightarrow>
               (case map_of races_by_district (state @ ''-'' @ district) of
                  Some race_id \<Rightarrow> update_race_competitiveness d' race_id competitiveness label
                | None \<Rightarrow> d'))
       competitive_races d"

text \<open>
  The demographics loop unpacks \<^verbatim>\<open>race_key.split('-')\<close> into two names for the first 20
  races; a key with a second dash raises ValueError. Its writes go to
  \<^verbatim>\<open>district_demographics\<close> only.
\<close>

definition keys_split_in_two :: "race_dict \<Rightarrow> bool" where
  "keys_split_in_two races_by_district \<longleftrightarrow>
     list_all (\<lambda>item. count_list (fst item) (CHR ''-'') = 1) (take 20 races_by_district)"

text \<open>
  \<^verbatim>\<open>scrape_all_data\<close>: the election, the House loop, the Senate loop, the ratings, the
  demographics and the scoring. The Google Civic and Wikipedia requests write nothing
  that is part of the state.
\<close>

definition scrape_all_data :: "db \<Rightarrow> fetched list \<Rightarrow> fetched list \<Rightarrow> (py_error \<times> db) + db" where
  "scrape_all_data d house_candidates senate_candidates =
     (let (d0, election_id) = create_default_election d ''2026''
      in case for_each (house_candidate election_id) house_candidates (d0, []) of
           Inl e \<Rightarrow> Inl e
         | Inr (d1, races_by_district) \<Rightarrow>
            (case for_each (senate_candidate election_id) senate_candidates (d1, []) of
               Inl e \<Rightarrow> Inl e
             | Inr (d2, senate_races) \<Rightarrow>
                (let d3 = update_ratings races_by_district d2
                 in if keys_split_in_two races_by_district
                    then Inr (calculate_impact_scores d3)
                    else Inl (ValueError, d3))))"

section \<open>Notions used in the statements\<close>

text \<open>The key of the unique index of \<^verbatim>\<open>impact_scores\<close>, and the keys the scoring query yields.\<close>

definition pair_key :: "impact_columns \<Rightarrow> int \<times> int" where
  "pair_key v = (is_candidate_id v, is_race_id v)"

definition scored_pairs :: "db \<Rightarrow> (int \<times> int) set" where
  "scored_pairs d = set (map (\<lambda>p. (p_candidate_id p, p_race_id p)) (select_pairs d))"

text \<open>Of a sequence of writes, the last one for every key, in the order they are written.\<close>

fun last_writes :: "impact_columns list \<Rightarrow> impact_columns list" where
  "last_writes [] = []"
| "last_writes (v # vs) =
     (if pair_key v \<in> set (map pair_key vs) then last_writes vs else v # last_writes vs)"

text \<open>
  The store after \<^verbatim>\<open>create_tables\<close> on a new file, and small stores for the examples: a
  challenger linked to race 7, without and with a finance record.
\<close>

definition fresh_db :: db where
  "fresh_db = \<lparr> elections = [], elections_seq = 0, races = [], races_seq = 0,
      candidates = [], candidates_seq = 0, issues = [],
      candidate_issues = [], candidate_issues_seq = 0,
      race_candidates = [], race_candidates_seq = 0,
      campaign_finance = [], campaign_finance_seq = 0,
      impact_scores = [], impact_scores_seq = 0, leverage_calls = 0 \<rparr>"

definition challenger :: candidate_row where
  "challenger = \<lparr> c_id = 1, c_fec_candidate_id = Some ''H6AZ01001'', c_name = ''A. Challenger'',
      c_party = Some ''DEMOCRATIC PARTY'', c_office = Some ''House'', c_state = Some ''AZ'',
      c_district = Some ''01'', c_incumbent = Some 0, c_candidate_status = Some ''C'',
      c_election_year = Some 2026 \<rparr>"

definition linked_db :: db where
  "linked_db = fresh_db \<lparr> candidates := [challenger], candidates_seq := 1,
      race_candidates := [\<lparr> rc_id = 1, rc_race_id = 7, rc_candidate_id = 1 \<rparr>],
      race_candidates_seq := 1 \<rparr>"



section \<open>Properties of the leverage score\<close>




section \<open>The table of impact scores after a scoring pass\<close>

lemma same_pair_key: "same_pair v r \<longleftrightarrow> pair_key (is_columns r) = pair_key v"
  by (auto simp: same_pair_def pair_key_def)

lemma columns_insert_or_replace:
  "map is_columns (impact_scores (insert_or_replace_impact_score v d)) =
     filter (\<lambda>c. pair_key c \<noteq> pair_key v) (map is_columns (impact_scores d)) @ [v]"
  by (simp add: insert_or_replace_impact_score_def Let_def filter_map o_def same_pair_key)

lemma columns_fold:
  "map is_columns (impact_scores (fold insert_or_replace_impact_score vs d)) =
     filter (\<lambda>c. pair_key c \<notin> set (map pair_key vs)) (map is_columns (impact_scores d))
     @ last_writes vs"
proof (induction vs arbitrary: d)
  case Nil
  then show ?case by simp
next
  case (Cons v vs)
  show ?case
    by (simp add: Cons.IH columns_insert_or_replace)
qed

lemma set_last_writes: "set (last_writes vs) \<subseteq> set vs"
  by (induction vs) auto

lemma keys_last_writes: "set (map pair_key (last_writes vs)) = set (map pair_key vs)"
  by (induction vs) auto


lemma fold_map_conv: "fold (\<lambda>x. f (g x)) xs = fold f (map g xs)"
  by (simp add: fold_map o_def)

lemma calc_columns:
  "map is_columns (impact_scores (calculate_impact_scores d)) =
     filter (\<lambda>c. pair_key c \<notin> set (map pair_key (map impact_values (select_pairs d))))
        (map is_columns (impact_scores d))
     @ last_writes (map impact_values (select_pairs d))"
  unfolding calculate_impact_scores_def fold_map_conv by (rule columns_fold)

lemma other_insert_or_replace:
  "candidates (insert_or_replace_impact_score v d) = candidates d"
  "race_candidates (insert_or_replace_impact_score v d) = race_candidates d"
  "campaign_finance (insert_or_replace_impact_score v d) = campaign_finance d"
  "leverage_calls (insert_or_replace_impact_score v d) = leverage_calls d"
  by (simp_all add: insert_or_replace_impact_score_def Let_def)

lemma other_fold:
  "candidates (fold insert_or_replace_impact_score vs d) = candidates d
   \<and> race_candidates (fold insert_or_replace_impact_score vs d) = race_candidates d
   \<and> campaign_finance (fold insert_or_replace_impact_score vs d) = campaign_finance d
   \<and> leverage_calls (fold insert_or_replace_impact_score vs d) = leverage_calls d"
  by (induction vs arbitrary: d) (simp_all add: other_insert_or_replace)

lemma select_pairs_cong:
  "candidates d' = candidates d \<Longrightarrow> race_candidates d' = race_candidates d \<Longrightarrow>
   campaign_finance d' = campaign_finance d \<Longrightarrow> select_pairs d' = select_pairs d"
  by (simp add: select_pairs_def)

lemma select_pairs_calc: "select_pairs (calculate_impact_scores d) = select_pairs d"
  unfolding calculate_impact_scores_def fold_map_conv
  by (rule select_pairs_cong) (simp_all add: other_fold)

lemma idem_columns:
  "map is_columns (impact_scores (calculate_impact_scores (calculate_impact_scores d))) =
   map is_columns (impact_scores (calculate_impact_scores d))"
proof -
  let ?vs = "map impact_values (select_pairs d)"
  have "filter (\<lambda>c. pair_key c \<notin> set (map pair_key ?vs)) (last_writes ?vs) = []"
    using keys_last_writes[of ?vs] by (auto simp: filter_empty_conv)
  then show ?thesis
    by (simp add: calc_columns[of "calculate_impact_scores d"] select_pairs_calc)
       (simp add: calc_columns)
qed

lemma pair_key_impact_values: "pair_key (impact_values p) = (p_candidate_id p, p_race_id p)"
  by (simp add: pair_key_def impact_values_def Let_def)

lemma scored_pairs_keys:
  "set (map pair_key (map impact_values (select_pairs d))) = scored_pairs d"
  by (simp add: scored_pairs_def pair_key_impact_values o_def)

lemma written_row:
  assumes "r \<in> set (impact_scores (calculate_impact_scores d))"
    and "pair_key (is_columns r) \<in> scored_pairs d"
  shows "\<exists>p \<in> set (select_pairs d). is_columns r = impact_values p"
proof -
  from assms(1) have "is_columns r \<in> set (map is_columns (impact_scores (calculate_impact_scores d)))"
    by simp
  then have "is_columns r \<in> set (last_writes (map impact_values (select_pairs d)))"
    using assms(2) unfolding calc_columns scored_pairs_keys[symmetric] by auto
  then have "is_columns r \<in> set (map impact_values (select_pairs d))"
    using set_last_writes by blast
  then show ?thesis by auto
qed



section \<open>Properties of the impact scores\<close>


lemma select_pairs_linked:
  "select_pairs linked_db = [\<lparr>p_race_id = 7, p_candidate_id = 1, p_donation_leverage_score = None,
     p_small_dollar_percentage = None, p_incumbent = Some 0\<rparr>]"
  by (simp add: select_pairs_def linked_db_def fresh_db_def challenger_def)






lemma calculate_impact_scores_linked:
  "impact_scores (calculate_impact_scores linked_db) =
     [\<lparr>is_id = 1, is_columns = \<lparr>is_candidate_id = 1, is_race_id = 7, is_competitiveness_score = 50,
          is_funding_leverage_score = 50, is_control_impact_score = 70,
          is_grassroots_potential_score = 60, is_overall_impact_score = 111 / 2,
          is_recommendation_tier = ''Medium Impact''\<rparr>\<rparr>]"
  unfolding calculate_impact_scores_def select_pairs_linked
  by (simp add: insert_or_replace_impact_score_def impact_values_def next_id_def Let_def
      linked_db_def fresh_db_def)




text \<open>
  Claim C5. The tier written with a score is a function of the overall score alone, the
  one the threshold table of the specification gives: "High Impact" from 75 up,
  "Medium-High Impact" from 60 up, "Medium Impact" from 45 up and "Lower Priority" below;
  the scores 75, 60 and 45 themselves get the tier they open.
\<close>

theorem recommendation_tier_thresholds:
  "(\<forall>r \<in> set (impact_scores (calculate_impact_scores d)).
      pair_key (is_columns r) \<in> scored_pairs d \<longrightarrow>
      is_recommendation_tier (is_columns r) =
        spec_recommendation_tier (is_overall_impact_score (is_columns r)))
   \<and> is_recommendation_tier (impact_values p) =
        spec_recommendation_tier (is_overall_impact_score (impact_values p))
   \<and> (75 \<le> x \<longrightarrow> spec_recommendation_tier x = ''High Impact'')
   \<and> (60 \<le> x \<and> x < 75 \<longrightarrow> spec_recommendation_tier x = ''Medium-High Impact'')
   \<and> (45 \<le> x \<and> x < 60 \<longrightarrow> spec_recommendation_tier x = ''Medium Impact'')
   \<and> (x < 45 \<longrightarrow> spec_recommendation_tier x = ''Lower Priority'')
   \<and> spec_recommendation_tier 75 = ''High Impact''
   \<and> spec_recommendation_tier 60 = ''Medium-High Impact''
   \<and> spec_recommendation_tier 45 = ''Medium Impact''"
proof -
  have vals: "is_recommendation_tier (impact_values q) =
        spec_recommendation_tier (is_overall_impact_score (impact_values q))" for q
    by (simp add: impact_values_def spec_recommendation_tier_def Let_def)
  have rows: "\<forall>r \<in> set (impact_scores (calculate_impact_scores d)).
      pair_key (is_columns r) \<in> scored_pairs d \<longrightarrow>
      is_recommendation_tier (is_columns r) =
        spec_recommendation_tier (is_overall_impact_score (is_columns r))"
  proof (intro ballI impI)
    fix r assume r: "r \<in> set (impact_scores (calculate_impact_scores d))"
      and k: "pair_key (is_columns r) \<in> scored_pairs d"
    from written_row[OF r k] obtain q where "is_columns r = impact_values q" by blast
    then show "is_recommendation_tier (is_columns r) =
        spec_recommendation_tier (is_overall_impact_score (is_columns r))"
      by (simp add: vals)
  qed
  have table: "(75 \<le> x \<longrightarrow> spec_recommendation_tier x = ''High Impact'')"
    "(60 \<le> x \<and> x < 75 \<longrightarrow> spec_recommendation_tier x = ''Medium-High Impact'')"
    "(45 \<le> x \<and> x < 60 \<longrightarrow> spec_recommendation_tier x = ''Medium Impact'')"
    "(x < 45 \<longrightarrow> spec_recommendation_tier x = ''Lower Priority'')"
    "spec_recommendation_tier 75 = ''High Impact''"
    "spec_recommendation_tier 60 = ''Medium-High Impact''"
    "spec_recommendation_tier 45 = ''Medium Impact''"
    by (simp_all add: spec_recommendation_tier_def)
  from rows vals[of p] table show ?thesis by blast
qed

theorem recommendation_tier_thresholds_witness:
  "(\<exists>r \<in> set (impact_scores (calculate_impact_scores linked_db)).
      is_overall_impact_score (is_columns r) = 111 / 2
      \<and> is_recommendation_tier (is_columns r) = ''Medium Impact'')
   \<and> spec_recommendation_tier 80 = ''High Impact''
   \<and> spec_recommendation_tier (149 / 2) = ''Medium-High Impact''
   \<and> spec_recommendation_tier 59 = ''Medium Impact''
   \<and> spec_recommendation_tier 44 = ''Lower Priority''"
proof -
  note c5 = recommendation_tier_thresholds [of linked_db]
  obtain r where r: "r \<in> set (impact_scores (calculate_impact_scores linked_db))"
    and key: "pair_key (is_columns r) = (1, 7)"
    and ov: "is_overall_impact_score (is_columns r) = 111 / 2"
    by (simp add: calculate_impact_scores_linked pair_key_def)
  have "pair_key (is_columns r) \<in> scored_pairs linked_db"
    using key by (simp add: scored_pairs_def select_pairs_linked)
  with c5 r have "is_recommendation_tier (is_columns r) =
        spec_recommendation_tier (is_overall_impact_score (is_columns r))" by blast
  moreover from c5 [of undefined "111 / 2"] have "spec_recommendation_tier (111 / 2) = ''Medium Impact''"
    by simp
  ultimately have "is_recommendation_tier (is_columns r) = ''Medium Impact''"
    using ov by simp
  with r ov have 1: "\<exists>r \<in> set (impact_scores (calculate_impact_scores linked_db)).
      is_overall_impact_score (is_columns r) = 111 / 2
      \<and> is_recommendation_tier (is_columns r) = ''Medium Impact''" by blast
  from c5 [of undefined 80] have 2: "spec_recommendation_tier 80 = ''High Impact''" by simp
  from c5 [of undefined "149 / 2"]
  have 3: "spec_recommendation_tier (149 / 2) = ''Medium-High Impact''" by simp
  from c5 [of undefined 59] have 4: "spec_recommendation_tier 59 = ''Medium Impact''" by simp
  from c5 [of undefined 44] have 5: "spec_recommendation_tier 44 = ''Lower Priority''" by simp
  from 1 2 3 4 5 show ?thesis by blast
qed

end
